theory Spec2Isabelle
  imports Main
begin

section \<open>The WebService container of go-restful (web\_service.go)\<close>

text \<open>
  A WebService holds a root path, its compiled expression, an ordered list of Routes,
  default MIME types, documented path parameters and a filter chain. The methods with a
  pointer receiver (\<^verbatim>\<open>func (self *WebService) ...\<close>) are modelled by explicit state
  passing: they take the receiver and return it, updated, next to their result. The
  methods with a value receiver (\<^verbatim>\<open>func (self WebService) ...\<close>) only read a copy and
  are plain functions of the receiver.

  Go slices are lists; a nil slice and an empty slice are both \<open>[]\<close>. A pointer that may
  be nil is an \<open>option\<close>. The types the file only mentions (PathExpression, Route,
  the pointer to a Parameter, FilterFunction, RouteBuilder, error) are type variables
  \<open>'pe\<close>, \<open>'r\<close>, \<open>'p\<close>, \<open>'f\<close>, \<open>'b\<close>, \<open>'e\<close>.
\<close>

subsection \<open>Data model\<close>

record ('pe, 'r, 'p, 'f) WebService =
  rootPath :: string
  pathExpression :: "'pe option"
  routes :: "'r list"
  produces :: "string list"
  consumes :: "string list"
  pathParameters :: "'p list"
  filters :: "'f list"

text \<open>
  The file has no constructor: a service is obtained as \<^verbatim>\<open>new(WebService)\<close>, the value
  whose fields all hold the zero value of their type.
\<close>

definition zero_WebService :: "('pe, 'r, 'p, 'f) WebService" where
  "zero_WebService =
     \<lparr>rootPath = '''', pathExpression = None, routes = [], produces = [], consumes = [],
      pathParameters = [], filters = []\<rparr>"

text \<open>
  \<^verbatim>\<open>log.Fatalf("[restful] Invalid path:%s because:%v", root, err)\<close> prints and ends the
  process. The abort is a value that carries the two arguments of the message.
\<close>

datatype 'e fatal = Fatalf string 'e

subsection \<open>Operations of web\_service.go\<close>

text \<open>
  \<^verbatim>\<open>Path\<close>: \<open>NewPathExpression\<close> is defined in another file of the package and is a
  parameter here. It returns the Go pair \<^verbatim>\<open>(compiled, err)\<close>: a pointer that may be nil
  and an error that may be nil.
\<close>

definition Path ::
  "(string \<Rightarrow> 'pe option \<times> 'e option) \<Rightarrow> ('pe, 'r, 'p, 'f) WebService \<Rightarrow> string
     \<Rightarrow> 'e fatal + ('pe, 'r, 'p, 'f) WebService" where
  "Path NewPathExpression self root =
     (let self1 = self\<lparr>rootPath := root\<rparr>;
          (compiled, err) = NewPathExpression root
      in case err of
           Some e \<Rightarrow> Inl (Fatalf root e)
         | None \<Rightarrow> Inr (self1\<lparr>pathExpression := compiled\<rparr>))"

definition RootExpression :: "('pe, 'r, 'p, 'f) WebService \<Rightarrow> 'pe option" where
  "RootExpression self = pathExpression self"

text \<open>
  \<^verbatim>\<open>Param\<close> first replaces a nil \<^verbatim>\<open>pathParameters\<close> by an empty slice; both are \<open>[]\<close>.
\<close>

definition Param :: "('pe, 'r, 'p, 'f) WebService \<Rightarrow> 'p \<Rightarrow> ('pe, 'r, 'p, 'f) WebService" where
  "Param self parameter =
     (let self1 = (if pathParameters self = [] then self\<lparr>pathParameters := []\<rparr> else self)
      in self1\<lparr>pathParameters := pathParameters self1 @ [parameter]\<rparr>)"

text \<open>
  \<^verbatim>\<open>Route\<close>: \<open>copyDefaults\<close> and \<open>Build\<close> are methods of RouteBuilder, defined in another
  file, and are parameters here. \<open>copyDefaults\<close> returns nothing in Go and works on the
  builder through its pointer: the parameter returns the builder as it leaves it.
  \<open>Build\<close> returns the Route, and the builder as it leaves it. The result of \<open>Route\<close> is
  the receiver and the builder after the call.
\<close>

definition Route ::
  "('b \<Rightarrow> string list \<Rightarrow> string list \<Rightarrow> 'b) \<Rightarrow> ('b \<Rightarrow> 'r \<times> 'b)
     \<Rightarrow> ('pe, 'r, 'p, 'f) WebService \<Rightarrow> 'b \<Rightarrow> ('pe, 'r, 'p, 'f) WebService \<times> 'b" where
  "Route copyDefaults Build self builder =
     (let builder1 = copyDefaults builder (produces self) (consumes self);
          (route, builder2) = Build builder1
      in (self\<lparr>routes := routes self @ [route]\<rparr>, builder2))"

definition Produces ::
  "('pe, 'r, 'p, 'f) WebService \<Rightarrow> string list \<Rightarrow> ('pe, 'r, 'p, 'f) WebService" where
  "Produces self contentTypes = self\<lparr>produces := contentTypes\<rparr>"

definition Consumes ::
  "('pe, 'r, 'p, 'f) WebService \<Rightarrow> string list \<Rightarrow> ('pe, 'r, 'p, 'f) WebService" where
  "Consumes self accepts = self\<lparr>consumes := accepts\<rparr>"

definition Routes :: "('pe, 'r, 'p, 'f) WebService \<Rightarrow> 'r list" where
  "Routes self = routes self"

definition RootPath :: "('pe, 'r, 'p, 'f) WebService \<Rightarrow> string" where
  "RootPath self = rootPath self"

definition PathParameters :: "('pe, 'r, 'p, 'f) WebService \<Rightarrow> 'p list" where
  "PathParameters self = pathParameters self"

definition Filters :: "('pe, 'r, 'p, 'f) WebService \<Rightarrow> 'f list" where
  "Filters self = filters self"

definition Filter :: "('pe, 'r, 'p, 'f) WebService \<Rightarrow> 'f \<Rightarrow> ('pe, 'r, 'p, 'f) WebService" where
  "Filter self filter_fn = self\<lparr>filters := filters self @ [filter_fn]\<rparr>"

subsection \<open>Parameters for documentation\<close>

text \<open>
  Modelled from the spec: the kinds of a Parameter. The type is declared in another file
  of the package; the spec (section 3) gives \<open>kind: enum{Path, Query, Body, Header, Form}\<close>.
\<close>

datatype ParameterKind = PathKind | QueryKind | BodyKind | HeaderKind | FormKind

text \<open>
  Modelled from the spec: the struct ParameterData, declared in another file of the
  package. web\_service.go names its fields \<^verbatim>\<open>Name\<close>, \<^verbatim>\<open>Description\<close> and \<^verbatim>\<open>Required\<close>;
  the spec (section 3) adds the kind and the data type. A composite literal leaves the
  kind unset: the value of an unset kind is not given by the spec and is \<open>None\<close> here.
\<close>

record ParameterData =
  Name :: string
  Description :: string
  Required :: bool
  Kind :: "ParameterKind option"
  DataType :: string

text \<open>
  Modelled from the spec: the struct Parameter, declared in another file of the package.
  web\_service.go builds it as \<^verbatim>\<open>&Parameter{&ParameterData{...}}\<close>: one field, the data.
\<close>

datatype Parameter = Parameter (data: ParameterData)

text \<open>
  Modelled from the spec: \<^verbatim>\<open>bePath\<close>, a method of Parameter defined in another file. The
  spec (sections 3 and 6) has the path parameter of a Service be of kind Path.
\<close>

definition bePath :: "Parameter \<Rightarrow> Parameter" where
  "bePath p = Parameter ((data p)\<lparr>Kind := Some PathKind\<rparr>)"

text \<open>
  Modelled from the spec: \<^verbatim>\<open>beQuery\<close>, a method of Parameter defined in another file,
  makes the parameter one of kind Query.
\<close>

definition beQuery :: "Parameter \<Rightarrow> Parameter" where
  "beQuery p = Parameter ((data p)\<lparr>Kind := Some QueryKind\<rparr>)"

text \<open>
  Modelled from the spec: \<^verbatim>\<open>beBody\<close>, a method of Parameter defined in another file,
  makes the parameter one of kind Body.
\<close>

definition beBody :: "Parameter \<Rightarrow> Parameter" where
  "beBody p = Parameter ((data p)\<lparr>Kind := Some BodyKind\<rparr>)"

text \<open>
  The three factories of web\_service.go. Each writes the literal with \<^verbatim>\<open>Name\<close>,
  \<^verbatim>\<open>Description\<close> and \<^verbatim>\<open>Required\<close>, leaves the other fields at their zero value,
  sets the kind and returns the parameter. The receiver is returned as it is left.
\<close>

definition PathParameter ::
  "('pe, 'r, 'p, 'f) WebService \<Rightarrow> string \<Rightarrow> string
     \<Rightarrow> Parameter \<times> ('pe, 'r, 'p, 'f) WebService" where
  "PathParameter self name description =
     (let p = Parameter \<lparr>Name = name, Description = description, Required = True,
                         Kind = None, DataType = []\<rparr>;
          p1 = bePath p
      in (p1, self))"

definition QueryParameter ::
  "('pe, 'r, 'p, 'f) WebService \<Rightarrow> string \<Rightarrow> string
     \<Rightarrow> Parameter \<times> ('pe, 'r, 'p, 'f) WebService" where
  "QueryParameter self name description =
     (let p = Parameter \<lparr>Name = name, Description = description, Required = False,
                         Kind = None, DataType = []\<rparr>;
          p1 = beQuery p
      in (p1, self))"

definition BodyParameter ::
  "('pe, 'r, 'p, 'f) WebService \<Rightarrow> string \<Rightarrow> string
     \<Rightarrow> Parameter \<times> ('pe, 'r, 'p, 'f) WebService" where
  "BodyParameter self name description =
     (let p = Parameter \<lparr>Name = name, Description = description, Required = True,
                         Kind = None, DataType = []\<rparr>;
          p1 = beBody p
      in (p1, self))"

subsection \<open>RouteBuilder and Route\<close>

text \<open>
  Modelled from the spec: the struct RouteBuilder, declared in another file of the
  package. The spec (section 2) has it build a Route "from a root path, sub-path,
  method, and metadata"; the metadata are the remaining parts of a Route (section 3):
  produced and consumed content types, documentation parameters, filters and the
  reference to the handler.
\<close>

record ('p, 'f, 'h) RouteBuilder =
  rb_rootPath :: string
  rb_subPath :: string
  rb_method :: string
  rb_produces :: "string list"
  rb_consumes :: "string list"
  rb_parameters :: "'p list"
  rb_filters :: "'f list"
  rb_handlerRef :: "'h option"

text \<open>
  Modelled from the spec: the struct Route, declared in another file of the package,
  with the fields of the spec (section 3). The compiled matcher is derived from the path
  template and is left out.
\<close>

record ('p, 'f, 'h) Route =
  r_method :: string
  r_pathTemplate :: string
  r_produces :: "string list"
  r_consumes :: "string list"
  r_parameters :: "'p list"
  r_filters :: "'f list"
  r_handlerRef :: "'h option"

text \<open>
  \<^verbatim>\<open>new(RouteBuilder)\<close>: the builder whose fields all hold the zero value of their type.
\<close>

definition new_RouteBuilder :: "('p, 'f, 'h) RouteBuilder" where
  "new_RouteBuilder =
     \<lparr>rb_rootPath = [], rb_subPath = [], rb_method = [], rb_produces = [],
      rb_consumes = [], rb_parameters = [], rb_filters = [], rb_handlerRef = None\<rparr>"

text \<open>
  Modelled from the spec: \<^verbatim>\<open>servicePath\<close>, a method of RouteBuilder defined in another
  file. The spec (section 4.2) has the factories "pre-seed method and service root
  path": the method stores its argument as the root path of the builder.
\<close>

definition servicePath :: "('p, 'f, 'h) RouteBuilder \<Rightarrow> string \<Rightarrow> ('p, 'f, 'h) RouteBuilder" where
  "servicePath b path = b\<lparr>rb_rootPath := path\<rparr>"

text \<open>
  Modelled from the spec: \<^verbatim>\<open>Method\<close> of RouteBuilder, defined in another file, stores
  the HTTP method of the Route under construction.
\<close>

definition RouteBuilder_Method ::
  "('p, 'f, 'h) RouteBuilder \<Rightarrow> string \<Rightarrow> ('p, 'f, 'h) RouteBuilder" where
  "RouteBuilder_Method b httpMethod = b\<lparr>rb_method := httpMethod\<rparr>"

text \<open>
  Modelled from the spec: \<^verbatim>\<open>Path\<close> of RouteBuilder, defined in another file, stores the
  sub-path of the Route under construction.
\<close>

definition RouteBuilder_Path ::
  "('p, 'f, 'h) RouteBuilder \<Rightarrow> string \<Rightarrow> ('p, 'f, 'h) RouteBuilder" where
  "RouteBuilder_Path b subPath = b\<lparr>rb_subPath := subPath\<rparr>"

text \<open>
  Modelled from the spec: \<^verbatim>\<open>copyDefaults\<close>, a method of RouteBuilder defined in another
  file. The spec (section 4.2) has it copy "Service-level default produces/consumes onto
  the Route if the Route did not override them", and (section 3) a Route's lists are
  "inherited from Service if unset": a list of the builder that is empty is replaced by
  the default, one that is set is kept.
\<close>

definition copyDefaults ::
  "('p, 'f, 'h) RouteBuilder \<Rightarrow> string list \<Rightarrow> string list \<Rightarrow> ('p, 'f, 'h) RouteBuilder" where
  "copyDefaults b rootProduces rootConsumes =
     b\<lparr>rb_produces := (if rb_produces b = [] then rootProduces else rb_produces b),
       rb_consumes := (if rb_consumes b = [] then rootConsumes else rb_consumes b)\<rparr>"

text \<open>
  Modelled from the spec: \<^verbatim>\<open>Build\<close>, a method of RouteBuilder defined in another file.
  The spec (section 4.2) has the builder combine "the Service's root path with the
  Route's own sub-path to form the complete path template" and finalise into a Route.
  How the two paths are joined is not specified: the join is the parameter
  \<open>concatPath\<close>. The builder is left as it is.
\<close>

definition Build ::
  "(string \<Rightarrow> string \<Rightarrow> string) \<Rightarrow> ('p, 'f, 'h) RouteBuilder
     \<Rightarrow> ('p, 'f, 'h) Route \<times> ('p, 'f, 'h) RouteBuilder" where
  "Build concatPath b =
     (\<lparr>r_method = rb_method b,
       r_pathTemplate = concatPath (rb_rootPath b) (rb_subPath b),
       r_produces = rb_produces b,
       r_consumes = rb_consumes b,
       r_parameters = rb_parameters b,
       r_filters = rb_filters b,
       r_handlerRef = rb_handlerRef b\<rparr>, b)"

subsection \<open>The builder factories of web\_service.go\<close>

text \<open>
  \<^verbatim>\<open>Method\<close> and the shortcuts \<^verbatim>\<open>GET\<close>, \<^verbatim>\<open>POST\<close>, \<^verbatim>\<open>PUT\<close>, \<^verbatim>\<open>DELETE\<close> chain the
  setters on a new builder. They read \<^verbatim>\<open>self.rootPath\<close> and write nothing; the receiver
  is returned as it is left.
\<close>

definition Method ::
  "('pe, 'r, 'q, 'g) WebService \<Rightarrow> string
     \<Rightarrow> ('p, 'f, 'h) RouteBuilder \<times> ('pe, 'r, 'q, 'g) WebService" where
  "Method self httpMethod =
     (RouteBuilder_Method (servicePath new_RouteBuilder (rootPath self)) httpMethod, self)"

definition GET ::
  "('pe, 'r, 'q, 'g) WebService \<Rightarrow> string
     \<Rightarrow> ('p, 'f, 'h) RouteBuilder \<times> ('pe, 'r, 'q, 'g) WebService" where
  "GET self subPath =
     (RouteBuilder_Path
        (RouteBuilder_Method (servicePath new_RouteBuilder (rootPath self)) ''GET'') subPath,
      self)"

definition POST ::
  "('pe, 'r, 'q, 'g) WebService \<Rightarrow> string
     \<Rightarrow> ('p, 'f, 'h) RouteBuilder \<times> ('pe, 'r, 'q, 'g) WebService" where
  "POST self subPath =
     (RouteBuilder_Path
        (RouteBuilder_Method (servicePath new_RouteBuilder (rootPath self)) ''POST'') subPath,
      self)"

definition PUT ::
  "('pe, 'r, 'q, 'g) WebService \<Rightarrow> string
     \<Rightarrow> ('p, 'f, 'h) RouteBuilder \<times> ('pe, 'r, 'q, 'g) WebService" where
  "PUT self subPath =
     (RouteBuilder_Path
        (RouteBuilder_Method (servicePath new_RouteBuilder (rootPath self)) ''PUT'') subPath,
      self)"

definition DELETE ::
  "('pe, 'r, 'q, 'g) WebService \<Rightarrow> string
     \<Rightarrow> ('p, 'f, 'h) RouteBuilder \<times> ('pe, 'r, 'q, 'g) WebService" where
  "DELETE self subPath =
     (RouteBuilder_Path
        (RouteBuilder_Method (servicePath new_RouteBuilder (rootPath self)) ''DELETE'') subPath,
      self)"

subsection \<open>Results\<close>

lemma Route_keeps_defaults:
  "produces (fst (Route cd bd s b)) = produces s \<and> consumes (fst (Route cd bd s b)) = consumes s"
  by (simp add: Route_def Let_def split: prod.split)

lemma Route_routes:
  "routes (fst (Route cd bd s b)) = routes s @ [fst (bd (cd b (produces s) (consumes s)))]"
  by (simp add: Route_def Let_def split: prod.split)

lemma Route_all_routes:
  "routes (foldl (\<lambda>w x. fst (Route cd bd w x)) s bs) =
     routes s @ map (\<lambda>x. fst (bd (cd x (produces s) (consumes s)))) bs"
proof (induction bs arbitrary: s)
  case Nil
  show ?case by simp
next
  case (Cons b bs)
  let ?s1 = "fst (Route cd bd s b)"
  have "routes (foldl (\<lambda>w x. fst (Route cd bd w x)) ?s1 bs) =
          routes ?s1 @ map (\<lambda>x. fst (bd (cd x (produces ?s1) (consumes ?s1)))) bs"
    by (rule Cons.IH)
  then show ?case
    by (simp add: Route_keeps_defaults Route_routes)
qed

lemma zero_WebService_filters: "filters zero_WebService = []"
  by (simp add: zero_WebService_def)

lemma Filter_all_filters: "filters (foldl Filter s fs) = filters s @ fs"
proof (induction fs arbitrary: s)
  case Nil
  show ?case by simp
next
  case (Cons f fs)
  have step: "filters (Filter s f) = filters s @ [f]"
    by (simp add: Filter_def)
  have "filters (foldl Filter (Filter s f) fs) = filters (Filter s f) @ fs"
    by (rule Cons.IH)
  with step show ?case by simp
qed

text \<open>
  Claim C1. One call of \<^verbatim>\<open>Route\<close> appends exactly one Route, the one \<open>Build\<close> makes from
  the builder after \<open>copyDefaults\<close>, at the end of the list of routes; after any run of
  \<^verbatim>\<open>Route\<close> calls \<^verbatim>\<open>Routes()\<close> holds the former routes followed by the built ones, in
  the order of the calls. This holds whatever \<open>copyDefaults\<close> and \<open>Build\<close> compute.
\<close>

theorem Route_appends_in_registration_order:
  "Routes (fst (Route cd bd s b)) = Routes s @ [fst (bd (cd b (produces s) (consumes s)))]
   \<and> length (Routes (fst (Route cd bd s b))) = Suc (length (Routes s))
   \<and> Routes (foldl (\<lambda>w x. fst (Route cd bd w x)) s bs) =
       Routes s @ map (\<lambda>x. fst (bd (cd x (produces s) (consumes s)))) bs"
  by (simp add: Routes_def Route_routes Route_all_routes)

text \<open>
  Claim C2. \<^verbatim>\<open>Route\<close> hands the default produces and consumes lists of the service to
  \<open>copyDefaults\<close> before it calls \<open>Build\<close>: the Route it appends is the one built from
  the builder with the defaults copied, its produces (consumes) list is the service's
  where the builder had none and the builder's own otherwise, and a later change of the
  service's defaults leaves the registered Route as it is.
\<close>

theorem Route_inherits_service_defaults:
  "fst (Route copyDefaults (Build cp) s b) =
     s\<lparr>routes := routes s @ [fst (Build cp (copyDefaults b (produces s) (consumes s)))]\<rparr>
   \<and> r_produces (last (Routes (fst (Route copyDefaults (Build cp) s b)))) =
       (if rb_produces b = [] then produces s else rb_produces b)
   \<and> r_consumes (last (Routes (fst (Route copyDefaults (Build cp) s b)))) =
       (if rb_consumes b = [] then consumes s else rb_consumes b)
   \<and> Routes (Consumes (Produces (fst (Route copyDefaults (Build cp) s b)) ps) cs) =
       Routes (fst (Route copyDefaults (Build cp) s b))"
  by (simp add: Route_def Let_def Routes_def Produces_def Consumes_def Build_def
      copyDefaults_def)

text \<open>
  Claim C3. When the root compiles (\<open>NewPathExpression\<close> returns no error), \<^verbatim>\<open>Path\<close>
  returns the service with \<open>rootPath\<close> set to the root and \<open>pathExpression\<close> set to the
  compiled expression, so that \<^verbatim>\<open>RootPath()\<close> and \<^verbatim>\<open>RootExpression()\<close> return them; when
  \<open>NewPathExpression\<close> returns an error, \<^verbatim>\<open>Path\<close> aborts and no service is returned.
\<close>

theorem Path_sets_root_or_aborts:
  "(NewPathExpression root = (compiled, None) \<longrightarrow>
      (\<exists>s'. Path NewPathExpression s root = Inr s'
            \<and> s' = s\<lparr>rootPath := root, pathExpression := compiled\<rparr>
            \<and> RootPath s' = root \<and> RootExpression s' = compiled))
   \<and> (NewPathExpression root = (c, Some e) \<longrightarrow>
        Path NewPathExpression s root = Inl (Fatalf root e))"
  by (simp add: Path_def RootPath_def RootExpression_def)

theorem Path_sets_root_or_aborts_witness:
  "(\<lambda>r. if r = ''/{'' then (None, Some ''unbalanced'') else (Some r, None)) ''/users''
     = (Some ''/users'', None)
   \<and> Path (\<lambda>r. if r = ''/{'' then (None, Some ''unbalanced'') else (Some r, None))
        (zero_WebService :: (string, nat, nat, nat) WebService) ''/users''
     = Inr (zero_WebService\<lparr>rootPath := ''/users'', pathExpression := Some ''/users''\<rparr>)
   \<and> (\<lambda>r. if r = ''/{'' then (None, Some ''unbalanced'') else (Some r, None)) ''/{''
     = (None :: string option, Some ''unbalanced'')
   \<and> Path (\<lambda>r. if r = ''/{'' then (None, Some ''unbalanced'') else (Some r, None))
        (zero_WebService :: (string, nat, nat, nat) WebService) ''/{''
     = Inl (Fatalf ''/{'' ''unbalanced'')"
  using
    Path_sets_root_or_aborts
      [where NewPathExpression =
               "\<lambda>r. if r = ''/{'' then (None, Some ''unbalanced'') else (Some r, None)"
         and root = "''/users''" and compiled = "Some ''/users''"
         and s = "zero_WebService :: (string, nat, nat, nat) WebService"]
    Path_sets_root_or_aborts
      [where NewPathExpression =
               "\<lambda>r. if r = ''/{'' then (None, Some ''unbalanced'') else (Some r, None)"
         and root = "''/{''" and c = "None" and e = "''unbalanced''"
         and s = "zero_WebService :: (string, nat, nat, nat) WebService"]
  by simp

text \<open>
  Claim C4, at the service as \<^verbatim>\<open>new(WebService)\<close> makes it: \<^verbatim>\<open>RootPath()\<close> returns the
  empty string and no expression has been compiled, although the comment of
  \<^verbatim>\<open>RootPath\<close> announces the default \<^verbatim>\<open>"/"\<close>.
\<close>

theorem zero_WebService_has_empty_root_path:
  "RootPath zero_WebService = '''' \<and> RootExpression zero_WebService = None"
  by (simp add: RootPath_def RootExpression_def zero_WebService_def)

text \<open>
  Claim C5. \<^verbatim>\<open>Method\<close>, \<^verbatim>\<open>GET\<close>, \<^verbatim>\<open>POST\<close>, \<^verbatim>\<open>PUT\<close> and \<^verbatim>\<open>DELETE\<close> return a builder
  that is the new, empty one but for the root path of the service, the HTTP method and,
  for the shortcuts, the sub-path; the service is left as it was.
\<close>

theorem factories_preseed_builder_and_keep_service:
  "Method s verb = (new_RouteBuilder\<lparr>rb_rootPath := RootPath s, rb_method := verb\<rparr>, s)
   \<and> GET s p =
       (new_RouteBuilder\<lparr>rb_rootPath := RootPath s, rb_method := ''GET'', rb_subPath := p\<rparr>, s)
   \<and> POST s p =
       (new_RouteBuilder\<lparr>rb_rootPath := RootPath s, rb_method := ''POST'', rb_subPath := p\<rparr>, s)
   \<and> PUT s p =
       (new_RouteBuilder\<lparr>rb_rootPath := RootPath s, rb_method := ''PUT'', rb_subPath := p\<rparr>, s)
   \<and> DELETE s p =
       (new_RouteBuilder\<lparr>rb_rootPath := RootPath s, rb_method := ''DELETE'', rb_subPath := p\<rparr>, s)"
  by (simp add: Method_def GET_def POST_def PUT_def DELETE_def RootPath_def servicePath_def
      RouteBuilder_Method_def RouteBuilder_Path_def)

text \<open>
  Claim C6. \<^verbatim>\<open>Filter\<close> appends the filter at the end of the list of filters, and after any
  run of \<^verbatim>\<open>Filter\<close> calls \<^verbatim>\<open>Filters()\<close> returns the former filters followed by the new
  ones in the order of the calls.
\<close>

theorem Filter_appends_in_registration_order:
  "Filters (Filter s f) = Filters s @ [f]
   \<and> Filters (foldl Filter s fs) = Filters s @ fs
   \<and> Filters (foldl Filter zero_WebService fs) = fs"
proof -
  have one: "filters (Filter s f) = filters s @ [f]"
    by (simp add: Filter_def)
  show ?thesis
    by (simp add: Filters_def Filter_all_filters one zero_WebService_filters)
qed

text \<open>
  Claim C7. \<^verbatim>\<open>Route\<close> writes the field \<open>routes\<close> only: the root path, the compiled
  expression, the default produces and consumes lists, the path parameters and the
  filters of the service are the same before and after the call, whatever
  \<open>copyDefaults\<close> and \<open>Build\<close> compute.
\<close>

theorem Route_changes_routes_only:
  "rootPath (fst (Route cd bd s b)) = rootPath s
   \<and> pathExpression (fst (Route cd bd s b)) = pathExpression s
   \<and> produces (fst (Route cd bd s b)) = produces s
   \<and> consumes (fst (Route cd bd s b)) = consumes s
   \<and> pathParameters (fst (Route cd bd s b)) = pathParameters s
   \<and> filters (fst (Route cd bd s b)) = filters s
   \<and> fst (Route cd bd s b) = s\<lparr>routes := routes (fst (Route cd bd s b))\<rparr>"
  by (simp add: Route_def Let_def split: prod.split)

text \<open>
  Claim C8. \<^verbatim>\<open>Produces\<close> and \<^verbatim>\<open>Consumes\<close> replace the whole default list by their
  arguments: after a second call the list is the second call's arguments, and nothing of
  the first call's is left.
\<close>

theorem Produces_Consumes_replace:
  "produces (Produces s ts) = ts
   \<and> consumes (Consumes s ts) = ts
   \<and> produces (Produces (Produces s ts1) ts2) = ts2
   \<and> consumes (Consumes (Consumes s ts1) ts2) = ts2
   \<and> Produces (Produces s ts1) ts2 = Produces s ts2
   \<and> Consumes (Consumes s ts1) ts2 = Consumes s ts2"
  by (simp add: Produces_def Consumes_def)

text \<open>
  Claim C9. \<^verbatim>\<open>PathParameter\<close> returns a required parameter of kind Path,
  \<^verbatim>\<open>BodyParameter\<close> a required parameter of kind Body, \<^verbatim>\<open>QueryParameter\<close> a parameter of
  kind Query that is not required; each has the name and the description given, and the
  service is left as it was.
\<close>

theorem parameter_factories:
  "Kind (data (fst (PathParameter s n d))) = Some PathKind
   \<and> Required (data (fst (PathParameter s n d)))
   \<and> Name (data (fst (PathParameter s n d))) = n
   \<and> Description (data (fst (PathParameter s n d))) = d
   \<and> snd (PathParameter s n d) = s
   \<and> Kind (data (fst (BodyParameter s n d))) = Some BodyKind
   \<and> Required (data (fst (BodyParameter s n d)))
   \<and> Name (data (fst (BodyParameter s n d))) = n
   \<and> Description (data (fst (BodyParameter s n d))) = d
   \<and> snd (BodyParameter s n d) = s
   \<and> Kind (data (fst (QueryParameter s n d))) = Some QueryKind
   \<and> \<not> Required (data (fst (QueryParameter s n d)))
   \<and> Name (data (fst (QueryParameter s n d))) = n
   \<and> Description (data (fst (QueryParameter s n d))) = d
   \<and> snd (QueryParameter s n d) = s"
  by (simp add: PathParameter_def BodyParameter_def QueryParameter_def bePath_def beBody_def
      beQuery_def)

text \<open>
  Claim C10. A builder made by \<^verbatim>\<open>Method\<close>, \<^verbatim>\<open>GET\<close>, \<^verbatim>\<open>POST\<close>, \<^verbatim>\<open>PUT\<close> or \<^verbatim>\<open>DELETE\<close>
  holds the root path the service had at that call: after a later, successful
  \<^verbatim>\<open>Path(newRoot)\<close> on the service, the service has the new root and the builder still
  has the old one.
\<close>

theorem builder_keeps_root_path_of_its_creation:
  assumes "mk \<in> {(\<lambda>w. Method w verb), (\<lambda>w. GET w p), (\<lambda>w. POST w p), (\<lambda>w. PUT w p),
                  (\<lambda>w. DELETE w p)}"
    and "mk s = (b, s1)"
    and "Path NewPathExpression s1 newRoot = Inr s2"
  shows "rb_rootPath b = RootPath s \<and> RootPath s2 = newRoot
         \<and> (newRoot \<noteq> RootPath s \<longrightarrow> rb_rootPath b \<noteq> RootPath s2)"
proof -
  from assms(1,2) have b: "rb_rootPath b = rootPath s" and s1: "s1 = s"
    by (auto simp: Method_def GET_def POST_def PUT_def DELETE_def servicePath_def
        RouteBuilder_Method_def RouteBuilder_Path_def)
  from assms(3) have "rootPath s2 = newRoot"
    by (auto simp: Path_def Let_def split: prod.splits option.splits)
  with b show ?thesis by (simp add: RootPath_def)
qed

theorem builder_keeps_root_path_of_its_creation_witness:
  "rb_rootPath (fst (GET (zero_WebService\<lparr>rootPath := ''/users''\<rparr>
                            :: (string, nat, nat, nat) WebService) ''/{id}''
                     :: (nat, nat, nat) RouteBuilder \<times> (string, nat, nat, nat) WebService))
     = ''/users''
   \<and> Path (\<lambda>r. (Some r, None :: string option))
        (zero_WebService\<lparr>rootPath := ''/users''\<rparr> :: (string, nat, nat, nat) WebService)
        ''/people''
     = Inr (zero_WebService\<lparr>rootPath := ''/people'', pathExpression := Some ''/people''\<rparr>)
   \<and> ''/people'' \<noteq> ''/users''"
proof -
  let ?s = "zero_WebService\<lparr>rootPath := ''/users''\<rparr> :: (string, nat, nat, nat) WebService"
  let ?s2 = "zero_WebService\<lparr>rootPath := ''/people'', pathExpression := Some ''/people''\<rparr>
               :: (string, nat, nat, nat) WebService"
  let ?b = "new_RouteBuilder\<lparr>rb_rootPath := ''/users'', rb_method := ''GET'',
                             rb_subPath := ''/{id}''\<rparr> :: (nat, nat, nat) RouteBuilder"
  let ?npe = "\<lambda>r :: string. (Some r, None :: string option)"
  have h1: "(\<lambda>w. GET w ''/{id}'') \<in>
              {(\<lambda>w. Method w ''GET''), (\<lambda>w. GET w ''/{id}''), (\<lambda>w. POST w ''/{id}''),
               (\<lambda>w. PUT w ''/{id}''), (\<lambda>w. DELETE w ''/{id}'')}"
    by simp
  have h2: "(\<lambda>w. GET w ''/{id}'') ?s = (?b, ?s)"
    by (simp add: GET_def servicePath_def RouteBuilder_Method_def RouteBuilder_Path_def)
  have h3: "Path ?npe ?s ''/people'' = Inr ?s2"
    by (simp add: Path_def zero_WebService_def)
  from builder_keeps_root_path_of_its_creation [OF h1 h2 h3] h2 h3
  show ?thesis by (simp add: RootPath_def)
qed

end
